theory Spec2Isabelle
  imports Complex_Main "HOL-Library.Sublist" "HOL-Library.AList"
begin

section \<open>Python values and exceptions\<close>

text \<open>
  What \<^verbatim>\<open>json.loads\<close> returns: \<^verbatim>\<open>None\<close>, a bool, an int, a float, a str, a list or
  a dict with string keys. The dataclasses of the program do not check the types of their
  fields, so a field read from a response holds any such value.
\<close>

datatype json =
    JNull
  | JBool bool
  | JInt int
  | JFloat real
  | JStr string
  | JArr "json list"
  | JObj "(string \<times> json) list"

text \<open>The exceptions the modelled code can raise.\<close>

datatype py_exn =
    TypeError
  | IndexError
  | KeyError
  | AttributeError
  | ValueError string

text \<open>
  The text of an error: a string the program builds itself, or an f-string that ends in
  \<^verbatim>\<open>str(e)\<close> of a caught exception (\<open>StrOf prefix e\<close>); the interpreter's own wording of
  a \<^verbatim>\<open>TypeError\<close> and the like is left symbolic.
\<close>

datatype message = Text string | StrOf string py_exn

text \<open>The dictionaries \<^verbatim>\<open>{"Ok": v}\<close> and \<^verbatim>\<open>{"Err": m}\<close> every method returns.\<close>

datatype 'a result = Ok 'a | Err message

text \<open>Python truthiness (\<^verbatim>\<open>if x\<close>, \<^verbatim>\<open>not x\<close>, \<^verbatim>\<open>x or d\<close>).\<close>

fun truthy :: "json \<Rightarrow> bool" where
  "truthy JNull = False"
| "truthy (JBool b) = b"
| "truthy (JInt n) = (n \<noteq> 0)"
| "truthy (JFloat r) = (r \<noteq> 0)"
| "truthy (JStr s) = (s \<noteq> [])"
| "truthy (JArr xs) = (xs \<noteq> [])"
| "truthy (JObj kvs) = (kvs \<noteq> [])"

fun truthy_str :: "string option \<Rightarrow> bool" where
  "truthy_str None = False"
| "truthy_str (Some s) = (s \<noteq> [])"

fun truthy_exn_str :: "py_exn \<Rightarrow> bool" where
  "truthy_exn_str (ValueError m) = (m \<noteq> [])"
| "truthy_exn_str _ = True"

fun truthy_message :: "message \<Rightarrow> bool" where
  "truthy_message (Text s) = (s \<noteq> [])"
| "truthy_message (StrOf p e) = (if p = [] then truthy_exn_str e else True)"

text \<open>\<^verbatim>\<open>x or d\<close> for an optional integer and for a string: \<open>x\<close> when it is truthy (not
  \<^verbatim>\<open>None\<close> and not 0, not empty), else \<open>d\<close>.\<close>

fun int_or :: "int option \<Rightarrow> int \<Rightarrow> int" where
  "int_or None d = d"
| "int_or (Some n) d = (if n \<noteq> 0 then n else d)"

definition str_or :: "string \<Rightarrow> string \<Rightarrow> string" where
  "str_or s d = (if s \<noteq> [] then s else d)"

text \<open>\<^verbatim>\<open>s.startswith(p)\<close>.\<close>

definition startswith :: "string \<Rightarrow> string \<Rightarrow> bool" where
  "startswith s p = (take (length p) s = p)"

text \<open>\<^verbatim>\<open>k in x\<close> for a string \<open>k\<close>: a key of a dict, an element of a list, a substring of a
  str; a \<^verbatim>\<open>TypeError\<close> on anything else.\<close>

fun contains :: "string \<Rightarrow> json \<Rightarrow> py_exn + bool" where
  "contains k (JObj kvs) = Inr (map_of kvs k \<noteq> None)"
| "contains k (JArr xs) = Inr (JStr k \<in> set xs)"
| "contains k (JStr s) = Inr (list_ex (\<lambda>t. startswith t k) (suffixes s))"
| "contains k _ = Inl TypeError"

text \<open>\<^verbatim>\<open>x[k]\<close> for a string \<open>k\<close>.\<close>

fun getitem :: "json \<Rightarrow> string \<Rightarrow> py_exn + json" where
  "getitem (JObj kvs) k = (case map_of kvs k of None \<Rightarrow> Inl KeyError | Some v \<Rightarrow> Inr v)"
| "getitem _ k = Inl TypeError"

text \<open>\<^verbatim>\<open>x[0]\<close>; no key of a decoded JSON object is the integer 0.\<close>

fun getitem0 :: "json \<Rightarrow> py_exn + json" where
  "getitem0 (JArr []) = Inl IndexError"
| "getitem0 (JArr (x # xs)) = Inr x"
| "getitem0 (JStr []) = Inl IndexError"
| "getitem0 (JStr (c # cs)) = Inr (JStr [c])"
| "getitem0 (JObj kvs) = Inl KeyError"
| "getitem0 _ = Inl TypeError"

text \<open>\<^verbatim>\<open>x.get(k, d)\<close>: only a dict has the method.\<close>

fun dict_get :: "json \<Rightarrow> string \<Rightarrow> json \<Rightarrow> py_exn + json" where
  "dict_get (JObj kvs) k d = (case map_of kvs k of None \<Rightarrow> Inr d | Some v \<Rightarrow> Inr v)"
| "dict_get _ k d = Inl AttributeError"

text \<open>\<^verbatim>\<open>isinstance(x, dict)\<close>.\<close>

fun isinstance_dict :: "json \<Rightarrow> bool" where
  "isinstance_dict (JObj kvs) = True"
| "isinstance_dict _ = False"

section \<open>The dataclasses\<close>

text \<open>\<^verbatim>\<open>authorization_key\<close> is \<open>JNull\<close> for \<^verbatim>\<open>None\<close>; the token exchange stores in it
  whatever value the response carries.\<close>

record Credentials =
  cookie :: "string option"
  authorization_key :: json
  cookie_file :: "string option"

record Prompt =
  prompt :: string
  count :: "int option"
  seed :: "int option"
  model :: string
  aspect_ratio :: string

text \<open>\<open>project_title\<close> is the attribute the batch loop adds to an image.\<close>

record GeneratedImage =
  encoded_image :: json
  img_seed :: json
  media_generation_id :: json
  is_mask_edited_image :: json
  img_prompt :: json
  model_name_type :: json
  workflow_id :: json
  fingerprint_log_record_id :: json
  project_title :: "string option"

section \<open>cookie\_parser.py\<close>

text \<open>
  The cookie files are a parameter: \<open>files path\<close> is \<open>None\<close> when the path does not
  exist, and otherwise the dictionary \<^verbatim>\<open>CookieParser.parse_cookie_file\<close> reads from it
  (the cookies of the domain \<^verbatim>\<open>labs.google\<close>).
\<close>

type_synonym cookie_files = "string \<Rightarrow> (string \<times> string) list option"

definition session_keys :: "string list" where
  "session_keys = [''__Secure-next-auth.session-token'', ''session-token'', ''auth-token'']"

fun first_present :: "string list \<Rightarrow> (string \<times> string) list \<Rightarrow> string option" where
  "first_present [] cookies = None"
| "first_present (key # keys) cookies =
     (case map_of cookies key of Some v \<Rightarrow> Some v | None \<Rightarrow> first_present keys cookies)"

definition extract_session_token :: "(string \<times> string) list \<Rightarrow> string option" where
  "extract_session_token cookies = first_present session_keys cookies"

section \<open>ImageFX.\_\_init\_\_ (the same in imagefx.py and imagefx\_streamlit.py)\<close>

definition session_prefix :: string where
  "session_prefix = ''__Secure-next-auth.session-token=''"

definition load_cookies_from_file :: "cookie_files \<Rightarrow> Credentials \<Rightarrow> py_exn + Credentials" where
  "load_cookies_from_file files c =
     (case cookie_file c of
        None \<Rightarrow> Inl TypeError \<comment> \<open>not reached: called only with a non-empty path\<close>
      | Some path \<Rightarrow>
          (case files path of
             None \<Rightarrow> Inl (ValueError (''Failed to load cookies from file: Cookie file not found: '' @ path))
           | Some cookies \<Rightarrow>
               (if truthy_str (extract_session_token cookies)
                then Inr (c\<lparr>cookie := extract_session_token cookies\<rparr>)
                else Inl (ValueError ''Failed to load cookies from file: No session token found in cookie file''))))"

definition ImageFX_init :: "cookie_files \<Rightarrow> Credentials \<Rightarrow> py_exn + Credentials" where
  "ImageFX_init files c =
     (if \<not> truthy (authorization_key c) \<and> \<not> truthy_str (cookie c) \<and> \<not> truthy_str (cookie_file c)
      then Inl (ValueError ''Authorization token, Cookie, or Cookie file must be provided.'')
      else
        (case (if truthy_str (cookie_file c) then load_cookies_from_file files c else Inr c) of
           Inl e \<Rightarrow> Inl e
         | Inr c1 \<Rightarrow>
             (if \<not> truthy (authorization_key c1) \<and> \<not> truthy_str (cookie c1)
              then Inl (ValueError ''No valid authentication credentials found.'')
              else
                (case cookie c1 of
                   None \<Rightarrow> Inr c1
                 | Some ck \<Rightarrow>
                     (if ck \<noteq> [] \<and> length ck < 70
                      then Inl (ValueError ''Invalid cookie was provided.'')
                      else if ck \<noteq> [] \<and> \<not> startswith ck session_prefix
                      then Inr (c1\<lparr>cookie := Some (session_prefix @ ck)\<rparr>)
                      else Inr c1)))))"

section \<open>The network\<close>

text \<open>
  A request as \<^verbatim>\<open>_make_request\<close> sends it. The value of the \<^verbatim>\<open>Authorization\<close> header is
  the f-string \<^verbatim>\<open>f"Bearer {key}"\<close>, kept as \<open>Bearer key\<close>; the body is the request body
  before \<^verbatim>\<open>json.dumps\<close>.
\<close>

datatype header_value = Plain string | Bearer json

record payload =
  candidatesCount :: int
  prompts :: "string list"
  wire_seed :: int
  aspectRatio :: string
  modelNameType :: string
  clientContext :: "(string \<times> string) list"

record http_request =
  url :: string
  http_method :: string
  headers :: "(string \<times> header_value) list"
  body :: "payload option"

text \<open>
  The upstream service is a parameter: for a request, \<open>Inl e\<close> when \<^verbatim>\<open>requests\<close> raises a
  \<^verbatim>\<open>RequestException\<close> whose text is \<open>e\<close> (a transport failure, or a status that is not
  2xx, from \<^verbatim>\<open>raise_for_status\<close>), and \<open>Inr text\<close> for the body of a 2xx response. So is
  \<^verbatim>\<open>json.loads\<close>: \<open>None\<close> stands for a \<^verbatim>\<open>JSONDecodeError\<close>.
\<close>

type_synonym upstream = "http_request \<Rightarrow> string + string"

type_synonym json_loads = "string \<Rightarrow> json option"

text \<open>An ImageFX object: \<^verbatim>\<open>self.credentials\<close>, and the requests sent so far (the trace the
  claims about network calls are stated on).\<close>

record ImageFX =
  credentials :: Credentials
  requests_made :: "http_request list"

definition andthen :: "py_exn + 'a \<Rightarrow> ('a \<Rightarrow> py_exn + 'b) \<Rightarrow> py_exn + 'b" where
  "andthen x f = (case x of Inl e \<Rightarrow> Inl e | Inr v \<Rightarrow> f v)"

definition upper :: "string \<Rightarrow> string" where
  "upper s = map (\<lambda>c. let n = (of_char c :: nat) in if 97 \<le> n \<and> n \<le> 122 then char_of (n - 32) else c) s"

definition default_headers :: "(string \<times> header_value) list" where
  "default_headers = [(''Origin'', Plain ''https://labs.google''), (''Referer'', Plain ''https://labs.google'')]"

definition make_request ::
  "upstream \<Rightarrow> string \<Rightarrow> string \<Rightarrow> (string \<times> header_value) list \<Rightarrow> payload option \<Rightarrow>
   http_request list \<Rightarrow> (py_exn + string result) \<times> http_request list" where
  "make_request up u m hs b sent =
     (let hdrs = foldl (\<lambda>d (k, v). AList.update k v d) default_headers hs in
      if upper m = ''GET'' then
        (let req = \<lparr>url = u, http_method = ''GET'', headers = hdrs, body = None\<rparr> in
         (case up req of Inl e \<Rightarrow> Inr (Err (Text e)) | Inr text \<Rightarrow> Inr (Ok text), sent @ [req]))
      else if upper m = ''POST'' then
        (let req = \<lparr>url = u, http_method = ''POST'', headers = hdrs, body = b\<rparr> in
         (case up req of Inl e \<Rightarrow> Inr (Err (Text e)) | Inr text \<Rightarrow> Inr (Ok text), sent @ [req]))
      else (Inl (ValueError (''Unsupported HTTP method: '' @ m)), sent))"

section \<open>Token exchange (the same in both modules, but for the last check of check\_token)\<close>

definition session_url :: string where
  "session_url = ''https://labs.google/fx/api/auth/session''"

definition generation_url :: string where
  "generation_url = ''https://aisandbox-pa.googleapis.com/v1:runImageFx''"

definition get_auth_token ::
  "upstream \<Rightarrow> json_loads \<Rightarrow> bool \<Rightarrow> ImageFX \<Rightarrow> (py_exn + json result) \<times> ImageFX" where
  "get_auth_token up loads mutate self =
     (case cookie (credentials self) of
        None \<Rightarrow> (Inr (Err (Text ''Cookie is required for generating auth token.'')), self)
      | Some ck \<Rightarrow>
          if ck = [] then (Inr (Err (Text ''Cookie is required for generating auth token.'')), self)
          else
            (case make_request up session_url ''GET'' [(''Cookie'', Plain ck)] None (requests_made self) of
               (Inl e, sent) \<Rightarrow> (Inl e, self\<lparr>requests_made := sent\<rparr>)
             | (Inr (Err m), sent) \<Rightarrow> (Inr (Err m), self\<lparr>requests_made := sent\<rparr>)
             | (Inr (Ok text), sent) \<Rightarrow>
                 (case loads text of
                    None \<Rightarrow> (Inr (Err (Text (''Failed to parse response: '' @ text))), self\<lparr>requests_made := sent\<rparr>)
                  | Some parsed_resp \<Rightarrow>
                      (case contains ''access_token'' parsed_resp of
                         Inl e \<Rightarrow> (Inl e, self\<lparr>requests_made := sent\<rparr>)
                       | Inr False \<Rightarrow>
                           (Inr (Err (Text (''Access token is missing from response: '' @ text))),
                            self\<lparr>requests_made := sent\<rparr>)
                       | Inr True \<Rightarrow>
                           (case getitem parsed_resp ''access_token'' of
                              Inl e \<Rightarrow> (Inl e, self\<lparr>requests_made := sent\<rparr>)
                            | Inr tok \<Rightarrow>
                                (Inr (Ok tok),
                                 if mutate
                                 then self\<lparr>credentials := (credentials self)\<lparr>authorization_key := tok\<rparr>,
                                           requests_made := sent\<rparr>
                                 else self\<lparr>requests_made := sent\<rparr>))))))"

text \<open>imagefx.py\<close>

definition check_token ::
  "upstream \<Rightarrow> json_loads \<Rightarrow> ImageFX \<Rightarrow> (py_exn + json result) \<times> ImageFX" where
  "check_token up loads self =
     (if \<not> truthy (authorization_key (credentials self)) \<and> \<not> truthy_str (cookie (credentials self))
      then (Inr (Err (Text ''Authorization token and Cookie both are missing.'')), self)
      else if truthy_str (cookie (credentials self)) \<and> \<not> truthy (authorization_key (credentials self))
      then
        (case get_auth_token up loads True self of
           (Inl e, self1) \<Rightarrow> (Inl e, self1)
         | (Inr (Err m), self1) \<Rightarrow> (Inr (Err m), self1)
         | (Inr (Ok tok), self1) \<Rightarrow> (Inr (Ok (JBool True)), self1))
      else (Inr (Ok (JBool True)), self))"

text \<open>imagefx\_streamlit.py\<close>

definition check_token_st ::
  "upstream \<Rightarrow> json_loads \<Rightarrow> ImageFX \<Rightarrow> (py_exn + json result) \<times> ImageFX" where
  "check_token_st up loads self =
     (if \<not> truthy (authorization_key (credentials self)) \<and> \<not> truthy_str (cookie (credentials self))
      then (Inr (Err (Text ''Authorization token and Cookie both are missing.'')), self)
      else if truthy_str (cookie (credentials self)) \<and> \<not> truthy (authorization_key (credentials self))
      then
        (case get_auth_token up loads True self of
           (Inl e, self1) \<Rightarrow> (Inl e, self1)
         | (Inr (Err m), self1) \<Rightarrow> (Inr (Err m), self1)
         | (Inr (Ok tok), self1) \<Rightarrow>
             if \<not> truthy (authorization_key (credentials self1))
             then (Inr (Err (Text ''Failed to obtain authorization token from cookie'')), self1)
             else (Inr (Ok (JBool True)), self1))
      else (Inr (Ok (JBool True)), self))"

section \<open>ImageFX.generate\_image of imagefx.py\<close>

text \<open>Lines 212 to 221: the request body, built from the prompt after the rewrite of its
  model.\<close>

definition request_body :: "Prompt \<Rightarrow> payload" where
  "request_body p =
     \<lparr>candidatesCount = int_or (count p) 4,
      prompts = [prompt p],
      wire_seed = int_or (seed p) 0,
      aspectRatio = str_or (aspect_ratio p) ''IMAGE_ASPECT_RATIO_LANDSCAPE'',
      modelNameType = str_or (model p) ''IMAGEN_3_5'',
      clientContext = [(''sessionId'', '';1740658431200''), (''tool'', ''IMAGE_FX'')]\<rparr>"

text \<open>Lines 243 to 252: every field is required.\<close>

definition image_of :: "json \<Rightarrow> py_exn + GeneratedImage" where
  "image_of img =
     andthen (getitem img ''encodedImage'') (\<lambda>a.
     andthen (getitem img ''seed'') (\<lambda>b.
     andthen (getitem img ''mediaGenerationId'') (\<lambda>c.
     andthen (getitem img ''isMaskEditedImage'') (\<lambda>d.
     andthen (getitem img ''prompt'') (\<lambda>e.
     andthen (getitem img ''modelNameType'') (\<lambda>f.
     andthen (getitem img ''workflowId'') (\<lambda>g.
     andthen (getitem img ''fingerprintLogRecordId'') (\<lambda>h.
       Inr \<lparr>encoded_image = a, img_seed = b, media_generation_id = c, is_mask_edited_image = d,
            img_prompt = e, model_name_type = f, workflow_id = g, fingerprint_log_record_id = h,
            project_title = None\<rparr>))))))))"

fun images_of :: "json list \<Rightarrow> py_exn + GeneratedImage list" where
  "images_of [] = Inr []"
| "images_of (img # imgs) =
     andthen (image_of img) (\<lambda>g. andthen (images_of imgs) (\<lambda>gs. Inr (g # gs)))"

text \<open>Lines 233 to 257: the \<^verbatim>\<open>try\<close> block; only \<^verbatim>\<open>JSONDecodeError\<close> and \<^verbatim>\<open>KeyError\<close> are
  caught.\<close>

definition decode_response :: "json_loads \<Rightarrow> string \<Rightarrow> py_exn + GeneratedImage list result" where
  "decode_response loads text =
     (case
        (case loads text of
           None \<Rightarrow> Inr (Err (Text (''Failed to parse JSON: '' @ text)))
         | Some parsed_res \<Rightarrow>
             andthen (getitem parsed_res ''imagePanels'') (\<lambda>panels.
             andthen (getitem0 panels) (\<lambda>panel.
             andthen (getitem panel ''generatedImages'') (\<lambda>images.
               (case images of
                  JArr imgs \<Rightarrow> andthen (images_of imgs) (\<lambda>gs. Inr (Ok gs))
                | _ \<Rightarrow> Inr (Err (Text (''Invalid response received: '' @ text))))))))
      of
        Inl KeyError \<Rightarrow> Inr (Err (Text (''Failed to parse JSON: '' @ text)))
      | Inl e \<Rightarrow> Inl e
      | Inr r \<Rightarrow> Inr r)"

text \<open>The method returns its result; the model returns with it the prompt object, which the
  method changes, and the ImageFX object.\<close>

definition generate_image ::
  "upstream \<Rightarrow> json_loads \<Rightarrow> Prompt \<Rightarrow> ImageFX \<Rightarrow>
   (py_exn + GeneratedImage list result) \<times> Prompt \<times> ImageFX" where
  "generate_image up loads p self =
     (case check_token up loads self of
        (Inl e, self1) \<Rightarrow> (Inl e, p, self1)
      | (Inr (Err m), self1) \<Rightarrow> (Inr (Err m), p, self1)
      | (Inr (Ok t), self1) \<Rightarrow>
          (let p1 = (if model p = ''IMAGEN_4'' then p\<lparr>model := ''IMAGEN_3_5''\<rparr> else p) in
           (case make_request up generation_url ''POST''
                   [(''Authorization'', Bearer (authorization_key (credentials self1)))]
                   (Some (request_body p1)) (requests_made self1) of
              (Inl e, sent) \<Rightarrow> (Inl e, p1, self1\<lparr>requests_made := sent\<rparr>)
            | (Inr (Err m), sent) \<Rightarrow> (Inr (Err m), p1, self1\<lparr>requests_made := sent\<rparr>)
            | (Inr (Ok text), sent) \<Rightarrow> (decode_response loads text, p1, self1\<lparr>requests_made := sent\<rparr>))))"

section \<open>ImageFX.generate\_image of imagefx\_streamlit.py\<close>

text \<open>Lines 294 to 317: the model and aspect ratio sent, and the request body.\<close>

definition actual_model :: "Prompt \<Rightarrow> string" where
  "actual_model p =
     (if model p = ''IMAGEN_3'' then aspect_ratio p
      else if model p = ''IMAGEN_4'' then ''IMAGEN_3_5'' else model p)"

definition request_body_st :: "Prompt \<Rightarrow> payload" where
  "request_body_st p =
     \<lparr>candidatesCount = int_or (count p) 4,
      prompts = [prompt p],
      wire_seed = int_or (seed p) 0,
      aspectRatio = (if model p = ''IMAGEN_3'' then ''IMAGE_ASPECT_RATIO_UNSPECIFIED'' else aspect_ratio p),
      modelNameType = actual_model p,
      clientContext = [(''sessionId'', '';1740658431200''), (''tool'', ''IMAGE_FX'')]\<rparr>"

text \<open>Lines 355 to 368: one entry; \<open>Inr None\<close> is the \<^verbatim>\<open>continue\<close> after a \<^verbatim>\<open>KeyError\<close>.\<close>

definition image_of_st :: "Prompt \<Rightarrow> json \<Rightarrow> py_exn + GeneratedImage option" where
  "image_of_st p img =
     (case
        andthen (getitem img ''encodedImage'') (\<lambda>a.
        andthen (dict_get img ''seed'' (JInt 0)) (\<lambda>b.
        andthen (dict_get img ''mediaGenerationId'' (JStr [])) (\<lambda>c.
        andthen (dict_get img ''isMaskEditedImage'' (JBool False)) (\<lambda>d.
        andthen (dict_get img ''prompt'' (JStr (prompt p))) (\<lambda>e.
        andthen (dict_get img ''modelNameType'' (JStr (actual_model p))) (\<lambda>f.
        andthen (dict_get img ''workflowId'' (JStr [])) (\<lambda>g.
        andthen (dict_get img ''fingerprintLogRecordId'' (JStr [])) (\<lambda>h.
          Inr \<lparr>encoded_image = a, img_seed = b, media_generation_id = c, is_mask_edited_image = d,
               img_prompt = e, model_name_type = f, workflow_id = g, fingerprint_log_record_id = h,
               project_title = None\<rparr>))))))))
      of
        Inl KeyError \<Rightarrow> Inr None
      | Inl e \<Rightarrow> Inl e
      | Inr g \<Rightarrow> Inr (Some g))"

fun images_of_st :: "Prompt \<Rightarrow> json list \<Rightarrow> py_exn + GeneratedImage list" where
  "images_of_st p [] = Inr []"
| "images_of_st p (img # imgs) =
     andthen (image_of_st p img) (\<lambda>r. andthen (images_of_st p imgs) (\<lambda>gs.
       Inr (case r of None \<Rightarrow> gs | Some g \<Rightarrow> g # gs)))"

text \<open>Lines 329 to 378: the \<^verbatim>\<open>try\<close> block; every exception is caught.\<close>

definition decode_response_st :: "json_loads \<Rightarrow> Prompt \<Rightarrow> string \<Rightarrow> GeneratedImage list result" where
  "decode_response_st loads p text =
     (case loads text of
        None \<Rightarrow> Err (Text (''Failed to parse JSON: '' @ take 200 text @ ''...''))
      | Some parsed_res \<Rightarrow>
          (case
             andthen (contains ''imagePanels'' parsed_res) (\<lambda>has.
               if \<not> has
               then Inr (Err (Text (''Unexpected response structure: '' @ take 200 text @ ''...'')))
               else
                 andthen (getitem parsed_res ''imagePanels'') (\<lambda>panels.
                   if \<not> truthy panels then Inr (Err (Text ''No image panels in response''))
                   else
                     andthen (getitem0 panels) (\<lambda>panel.
                     andthen (dict_get panel ''generatedImages'' (JArr [])) (\<lambda>images.
                       (case images of
                          JArr imgs \<Rightarrow>
                            (if imgs = [] then Inr (Err (Text ''No images generated''))
                             else
                               andthen (images_of_st p imgs) (\<lambda>gs.
                                 if gs = []
                                 then Inr (Err (Text ''Failed to parse any images from response''))
                                 else Inr (Ok gs)))
                        | _ \<Rightarrow>
                            Inr (Err (Text (''Invalid response received: '' @ take 200 text @ ''...''))))))))
           of
             Inl e \<Rightarrow> Err (StrOf ''Unexpected error: '' e)
           | Inr r \<Rightarrow> r))"

definition generate_image_st ::
  "upstream \<Rightarrow> json_loads \<Rightarrow> Prompt \<Rightarrow> ImageFX \<Rightarrow> (py_exn + GeneratedImage list result) \<times> ImageFX" where
  "generate_image_st up loads p self =
     (case check_token_st up loads self of
        (Inl e, self1) \<Rightarrow> (Inl e, self1)
      | (Inr (Err m), self1) \<Rightarrow> (Inr (Err m), self1)
      | (Inr (Ok t), self1) \<Rightarrow>
          (case make_request up generation_url ''POST''
                  [(''Authorization'', Bearer (authorization_key (credentials self1)))]
                  (Some (request_body_st p)) (requests_made self1) of
             (Inl e, sent) \<Rightarrow> (Inl e, self1\<lparr>requests_made := sent\<rparr>)
           | (Inr (Err m), sent) \<Rightarrow> (Inr (Err m), self1\<lparr>requests_made := sent\<rparr>)
           | (Inr (Ok text), sent) \<Rightarrow>
               (Inr (decode_response_st loads p text), self1\<lparr>requests_made := sent\<rparr>)))"

section \<open>The Generate button of imagefx\_streamlit.py (main, from line 1087)\<close>

text \<open>
  The handler is modelled from the point where \<^verbatim>\<open>valid_projects\<close> is built. The widgets'
  values (\<^verbatim>\<open>cookie\<close>, \<^verbatim>\<open>auth_token\<close>, \<^verbatim>\<open>cookie_file\<close>) are a \<open>Credentials\<close> value, and
  \<^verbatim>\<open>count\<close>, \<^verbatim>\<open>seed\<close>, \<^verbatim>\<open>model\<close>, \<^verbatim>\<open>aspect_ratio\<close> a \<open>Prompt\<close> whose text is not used.
\<close>

record project =
  title :: string
  project_prompts :: "string list"
  project_index :: nat

text \<open>The dictionary \<^verbatim>\<open>error_data\<close> (keys \<^verbatim>\<open>prompt\<close>, \<^verbatim>\<open>error\<close>, \<^verbatim>\<open>index\<close>, and later
  \<^verbatim>\<open>project_title\<close>).\<close>

record error_data =
  failed_prompt :: string
  failed_error :: message
  failed_index :: nat
  failed_project_title :: "string option"

text \<open>The entries of \<^verbatim>\<open>batch_results\<close>.\<close>

record batch_result =
  result_prompt_index :: nat
  result_prompt_text :: string
  result_images :: "GeneratedImage list option"
  result_error :: "message option"
  result_error_data :: "error_data option"
  result_project_title :: string

text \<open>The messages shown that tell how a run went: the three refusals, and per prompt
  \<^verbatim>\<open>Generation failed for Project '{project_title}' - Prompt {prompt_index}: {error}\<close> and
  \<^verbatim>\<open>Generated {len(images)} images for Project '{project_title}' - Prompt {prompt_index}\<close>.\<close>

datatype ui_event =
    CredentialsMissing
  | CookieFileNotFound
  | TooManyPrompts nat string nat
  | GenerationFailed string nat message
  | Generated nat string nat

text \<open>\<^verbatim>\<open>st.session_state\<close>, with the messages shown and the requests sent.\<close>

record app =
  all_generated_images :: "GeneratedImage list"
  failed_prompts :: "error_data list"
  generating :: bool
  generation_complete :: bool
  current_title :: string
  show_download_button :: bool
  shown :: "ui_event list"
  requests :: "http_request list"

text \<open>
  What the handler runs in: the cookie files, the upstream service, \<^verbatim>\<open>json.loads\<close>, and the
  order in which \<^verbatim>\<open>as_completed\<close> hands over the futures of a batch (some permutation of
  the order of submission). The workers of a batch are run here one after the other; as
  the service answers a request by the request alone, what each returns does not depend
  on how their requests interleave.
\<close>

record env =
  ev_files :: cookie_files
  ev_up :: upstream
  ev_loads :: json_loads
  as_completed ::
    "((nat \<times> string) \<times> (GeneratedImage list option \<times> string \<times> message option \<times> error_data option)) list \<Rightarrow>
     ((nat \<times> string) \<times> (GeneratedImage list option \<times> string \<times> message option \<times> error_data option)) list"

text \<open>\<^verbatim>\<open>s.strip()\<close>, on the ASCII white space.\<close>

definition is_space :: "char \<Rightarrow> bool" where
  "is_space c = (c \<in> set [CHR 0x09, CHR 0x0A, CHR 0x0B, CHR 0x0C, CHR 0x0D,
                           CHR 0x1C, CHR 0x1D, CHR 0x1E, CHR 0x1F, CHR 0x20])"

definition strip :: "string \<Rightarrow> string" where
  "strip s = rev (dropWhile is_space (rev (dropWhile is_space s)))"

text \<open>\<^verbatim>\<open>str(e)\<close>.\<close>

fun exn_message :: "py_exn \<Rightarrow> message" where
  "exn_message (ValueError m) = Text m"
| "exn_message e = StrOf [] e"

definition process_single_prompt ::
  "env \<Rightarrow> Credentials \<Rightarrow> Prompt \<Rightarrow> nat \<times> string \<Rightarrow> http_request list \<Rightarrow>
   (GeneratedImage list option \<times> string \<times> message option \<times> error_data option) \<times> http_request list" where
  "process_single_prompt ev creds template prompt_data sent =
     (case prompt_data of (prompt_index, prompt_text) \<Rightarrow>
       (case ImageFX_init (ev_files ev) creds of
          Inl e \<Rightarrow>
            ((None, prompt_text, Some (exn_message e),
              Some \<lparr>failed_prompt = prompt_text, failed_error = exn_message e,
                    failed_index = prompt_index + 1, failed_project_title = None\<rparr>), sent)
        | Inr c \<Rightarrow>
            (case generate_image_st (ev_up ev) (ev_loads ev) (template\<lparr>prompt := strip prompt_text\<rparr>)
                    \<lparr>credentials = c, requests_made = sent\<rparr> of
               (Inl e, self) \<Rightarrow>
                 ((None, prompt_text, Some (exn_message e),
                   Some \<lparr>failed_prompt = prompt_text, failed_error = exn_message e,
                         failed_index = prompt_index + 1, failed_project_title = None\<rparr>),
                  requests_made self)
             | (Inr (Err m), self) \<Rightarrow>
                 ((None, prompt_text, Some m,
                   Some \<lparr>failed_prompt = prompt_text, failed_error = m,
                         failed_index = prompt_index + 1, failed_project_title = None\<rparr>),
                  requests_made self)
             | (Inr (Ok imgs), self) \<Rightarrow>
                 ((Some (map (\<lambda>img. img\<lparr>img_prompt := JStr prompt_text\<rparr>) imgs), prompt_text, None, None),
                  requests_made self))))"

text \<open>The executor of one batch: every prompt of the batch is submitted.\<close>

fun submit_all ::
  "env \<Rightarrow> Credentials \<Rightarrow> Prompt \<Rightarrow> (nat \<times> string) list \<Rightarrow> http_request list \<Rightarrow>
   ((nat \<times> string) \<times> (GeneratedImage list option \<times> string \<times> message option \<times> error_data option)) list
   \<times> http_request list" where
  "submit_all ev creds template [] sent = ([], sent)"
| "submit_all ev creds template (pd # pds) sent =
     (case process_single_prompt ev creds template pd sent of
        (r, sent1) \<Rightarrow>
          (case submit_all ev creds template pds sent1 of
             (rs, sent2) \<Rightarrow> ((pd, r) # rs, sent2)))"

definition collect ::
  "string \<Rightarrow> (nat \<times> string) \<times> (GeneratedImage list option \<times> string \<times> message option \<times> error_data option) \<Rightarrow>
   batch_result" where
  "collect project_title' done =
     (case done of ((prompt_index, submitted_text), (images, prompt_text, err, ed)) \<Rightarrow>
        \<lparr>result_prompt_index = prompt_index, result_prompt_text = prompt_text, result_images = images,
         result_error = err, result_error_data = ed, result_project_title = project_title'\<rparr>)"

text \<open>The body of \<^verbatim>\<open>for result in batch_results\<close>.\<close>

definition show_result :: "batch_result \<Rightarrow> app \<Rightarrow> app" where
  "show_result r a =
     (case result_error r of
        Some m \<Rightarrow>
          if truthy_message m then
            (case result_error_data r of
               Some ed \<Rightarrow>
                 a\<lparr>shown := shown a @ [GenerationFailed (result_project_title r) (result_prompt_index r) m],
                   failed_prompts := failed_prompts a @ [ed\<lparr>failed_project_title := Some (result_project_title r)\<rparr>]\<rparr>
             | None \<Rightarrow>
                 a\<lparr>shown := shown a @ [GenerationFailed (result_project_title r) (result_prompt_index r) m]\<rparr>)
          else
            (case result_images r of
               Some (img # imgs) \<Rightarrow>
                 a\<lparr>shown := shown a @ [Generated (length (img # imgs)) (result_project_title r) (result_prompt_index r)],
                   all_generated_images := all_generated_images a @
                     map (\<lambda>i. i\<lparr>project_title := Some (result_project_title r)\<rparr>) (img # imgs)\<rparr>
             | _ \<Rightarrow> a)
      | None \<Rightarrow>
          (case result_images r of
             Some (img # imgs) \<Rightarrow>
               a\<lparr>shown := shown a @ [Generated (length (img # imgs)) (result_project_title r) (result_prompt_index r)],
                 all_generated_images := all_generated_images a @
                   map (\<lambda>i. i\<lparr>project_title := Some (result_project_title r)\<rparr>) (img # imgs)\<rparr>
           | _ \<Rightarrow> a))"

text \<open>One turn of \<^verbatim>\<open>for batch_start in range(0, len(project_prompts), batch_size)\<close>, for
  \<^verbatim>\<open>batch_start = 3 * k\<close>: \<^verbatim>\<open>batch_prompts\<close> numbers the prompts from \<^verbatim>\<open>batch_start + 1\<close>.\<close>

definition batch_prompts :: "string list \<Rightarrow> nat \<Rightarrow> (nat \<times> string) list" where
  "batch_prompts ps k = enumerate (3 * k + 1) (take 3 (drop (3 * k) ps))"

definition run_batch :: "env \<Rightarrow> Credentials \<Rightarrow> Prompt \<Rightarrow> string \<Rightarrow> (nat \<times> string) list \<Rightarrow> app \<Rightarrow> app" where
  "run_batch ev creds template project_title' batch a =
     (case submit_all ev creds template batch (requests a) of
        (futures, sent) \<Rightarrow>
          foldl (\<lambda>a' r. show_result r a') (a\<lparr>requests := sent\<rparr>)
            (map (collect project_title') (as_completed ev futures)))"

definition run_project :: "env \<Rightarrow> Credentials \<Rightarrow> Prompt \<Rightarrow> project \<Rightarrow> app \<Rightarrow> app" where
  "run_project ev creds template pr a =
     foldl (\<lambda>a' k. run_batch ev creds template (title pr) (batch_prompts (project_prompts pr) k) a') a
       [0 ..< (length (project_prompts pr) + 2) div 3]"

text \<open>The first project with more than 50 prompts, with its position.\<close>

definition too_many :: "project list \<Rightarrow> (nat \<times> project) option" where
  "too_many valid_projects =
     find (\<lambda>ip. 50 < length (project_prompts (snd ip))) (enumerate 0 valid_projects)"

definition generate_clicked :: "env \<Rightarrow> Credentials \<Rightarrow> Prompt \<Rightarrow> project list \<Rightarrow> app \<Rightarrow> app" where
  "generate_clicked ev creds template valid_projects a =
     (if \<not> truthy_str (cookie creds) \<and> \<not> truthy (authorization_key creds) \<and> \<not> truthy_str (cookie_file creds)
      then a\<lparr>shown := shown a @ [CredentialsMissing]\<rparr>
      else if truthy_str (cookie_file creds) \<and>
              (case cookie_file creds of None \<Rightarrow> False | Some path \<Rightarrow> ev_files ev path = None)
      then a\<lparr>shown := shown a @ [CookieFileNotFound]\<rparr>
      else
        (let a1 = a\<lparr>generating := True, failed_prompts := [], all_generated_images := [],
                    generation_complete := False,
                    current_title := (case valid_projects of [] \<Rightarrow> [] | pr # prs \<Rightarrow> title pr)\<rparr> in
         (case too_many valid_projects of
            Some (i, pr) \<Rightarrow>
              a1\<lparr>shown := shown a1 @ [TooManyPrompts (i + 1) (title pr) (length (project_prompts pr))],
                 generating := False\<rparr>
          | None \<Rightarrow>
              (foldl (\<lambda>a' pr. run_project ev creds template pr a') a1 valid_projects)
                \<lparr>generation_complete := True, generating := False, show_download_button := True\<rparr>)))"

section \<open>Sample values\<close>

text \<open>Two session tokens of 80 and 84 characters.\<close>

definition file_token :: string where
  "file_token = ''eyJhbGciOiJkaXIiLCJlbmMiOiJBMjU2R0NNIn0eyJhbGciOiJkaXIiLCJlbmMiOiJBMjU2R0NNIn0ab''"

definition typed_token :: string where
  "typed_token = ''Fe26.2xx1f0b7c9a4d3e5f60718293a4b5c6d7e8f9Fe26.2xx1f0b7c9a4d3e5f60718293a4b5c6d7e8f9''"

text \<open>Response bodies, and what \<^verbatim>\<open>json.loads\<close> makes of them.\<close>

definition session_body :: string where
  "session_body = ''{access_token: ya29.a0}''"

definition one_image_body :: string where
  "one_image_body = ''{imagePanels: [{generatedImages: [{encodedImage: aGk=}]}]}''"

definition no_seed_body :: string where
  "no_seed_body = ''{imagePanels: [{generatedImages: [{all the fields but seed}]}]}''"

definition no_panels_body :: string where
  "no_panels_body = ''{imagePanels: []}''"

definition no_image_body :: string where
  "no_image_body = ''{imagePanels: [{generatedImages: [{seed: 7}]}]}''"

definition sample_loads :: json_loads where
  "sample_loads text =
     (if text = session_body then Some (JObj [(''access_token'', JStr ''ya29.a0'')])
      else if text = one_image_body then
        Some (JObj [(''imagePanels'', JArr [JObj [(''generatedImages'',
                JArr [JObj [(''encodedImage'', JStr ''aGk='')]])]])])
      else if text = no_seed_body then
        Some (JObj [(''imagePanels'', JArr [JObj [(''generatedImages'',
                JArr [JObj [(''encodedImage'', JStr ''aGk=''), (''mediaGenerationId'', JStr ''m1''),
                            (''isMaskEditedImage'', JBool False), (''prompt'', JStr ''cat''),
                            (''modelNameType'', JStr ''IMAGEN_3_5''), (''workflowId'', JStr ''w1''),
                            (''fingerprintLogRecordId'', JStr ''f1'')]])]])])
      else if text = no_panels_body then Some (JObj [(''imagePanels'', JArr [])])
      else if text = no_image_body then
        Some (JObj [(''imagePanels'', JArr [JObj [(''generatedImages'', JArr [JObj [(''seed'', JInt 7)]])]])])
      else None)"

text \<open>A service that answers the session request with a token and every generation request
  with one image, but the prompt \<^verbatim>\<open>dog\<close> with status 500.\<close>

definition status_500 :: string where
  "status_500 = ''500 Server Error: Internal Server Error for url: https://aisandbox-pa.googleapis.com/v1:runImageFx''"

definition sample_up :: upstream where
  "sample_up req =
     (if url req = session_url then Inr session_body
      else if map_option prompts (body req) = Some [''dog''] then Inl status_500
      else Inr one_image_body)"

text \<open>A service whose session endpoint is down.\<close>

definition status_503 :: string where
  "status_503 = ''503 Server Error: Service Unavailable for url: https://labs.google/fx/api/auth/session''"

definition session_down :: upstream where
  "session_down req = (if url req = session_url then Inl status_503 else Inr one_image_body)"

text \<open>A service that answers a generation request with no panel.\<close>

definition no_panels_up :: upstream where
  "no_panels_up req = (if url req = session_url then Inr session_body else Inr no_panels_body)"

definition sample_env :: env where
  "sample_env = \<lparr>ev_files = (\<lambda>path. None), ev_up = sample_up, ev_loads = sample_loads,
                  as_completed = (\<lambda>futures. futures)\<rparr>"

text \<open>A cookie file that holds one session cookie, and credentials that give both a cookie
  and that file.\<close>

definition sample_files :: cookie_files where
  "sample_files path = (if path = ''cookies.txt'' then Some [(''session-token'', file_token)] else None)"

definition file_creds :: Credentials where
  "file_creds = \<lparr>cookie = Some typed_token, authorization_key = JNull, cookie_file = Some ''cookies.txt''\<rparr>"

definition token_creds :: Credentials where
  "token_creds = \<lparr>cookie = None, authorization_key = JStr ''ya29.a0'', cookie_file = None\<rparr>"

definition cookie_creds :: Credentials where
  "cookie_creds = \<lparr>cookie = Some typed_token, authorization_key = JNull, cookie_file = None\<rparr>"

definition sample_template :: Prompt where
  "sample_template = \<lparr>prompt = [], count = Some 1, seed = None, model = ''IMAGEN_4'',
                       aspect_ratio = ''IMAGE_ASPECT_RATIO_LANDSCAPE''\<rparr>"

definition fresh_app :: app where
  "fresh_app = \<lparr>all_generated_images = [], failed_prompts = [], generating = False,
                 generation_complete = False, current_title = [], show_download_button = False,
                 shown = [], requests = []\<rparr>"

definition project_A :: project where
  "project_A = \<lparr>title = ''A'', project_prompts = [''cat'', ''dog'', ''bird''], project_index = 1\<rparr>"

definition project_B :: project where
  "project_B = \<lparr>title = ''B'', project_prompts = [''cat'', ''bird''], project_index = 1\<rparr>"

definition imagen3_prompt :: Prompt where
  "imagen3_prompt = \<lparr>prompt = ''cat'', count = Some 1, seed = None, model = ''IMAGEN_3'',
                      aspect_ratio = ''IMAGEN_3_PORTRAIT''\<rparr>"

definition imagen4_prompt :: Prompt where
  "imagen4_prompt = \<lparr>prompt = ''cat'', count = Some 1, seed = None, model = ''IMAGEN_4'',
                      aspect_ratio = ''IMAGE_ASPECT_RATIO_LANDSCAPE''\<rparr>"

definition token_client :: ImageFX where
  "token_client = \<lparr>credentials = token_creds, requests_made = []\<rparr>"

definition cookie_client :: ImageFX where
  "cookie_client =
     \<lparr>credentials = \<lparr>cookie = Some (session_prefix @ typed_token), authorization_key = JNull,
                     cookie_file = None\<rparr>,
      requests_made = []\<rparr>"

definition project_51 :: project where
  "project_51 = \<lparr>title = ''Big'', project_prompts = replicate 51 ''cat'', project_index = 1\<rparr>"

text \<open>No credentials at all, and credentials that name a cookie file that does not exist.\<close>

definition no_creds :: Credentials where
  "no_creds = \<lparr>cookie = None, authorization_key = JNull, cookie_file = None\<rparr>"

definition lost_file_creds :: Credentials where
  "lost_file_creds = \<lparr>cookie = None, authorization_key = JNull, cookie_file = Some ''gone.txt''\<rparr>"

section \<open>The entry the specification describes\<close>

text \<open>
  The image the specification asks for from an entry with the fields \<open>kvs\<close> and the image
  data \<open>a\<close>: each optional field is the entry's value, or its default when the entry has
  none.
\<close>

definition with_defaults :: "Prompt \<Rightarrow> (string \<times> json) list \<Rightarrow> json \<Rightarrow> GeneratedImage" where
  "with_defaults p kvs a =
     \<lparr>encoded_image = a,
      img_seed = case_option (JInt 0) id (map_of kvs ''seed''),
      media_generation_id = case_option (JStr []) id (map_of kvs ''mediaGenerationId''),
      is_mask_edited_image = case_option (JBool False) id (map_of kvs ''isMaskEditedImage''),
      img_prompt = case_option (JStr (prompt p)) id (map_of kvs ''prompt''),
      model_name_type = case_option (JStr (actual_model p)) id (map_of kvs ''modelNameType''),
      workflow_id = case_option (JStr []) id (map_of kvs ''workflowId''),
      fingerprint_log_record_id = case_option (JStr []) id (map_of kvs ''fingerprintLogRecordId''),
      project_title = None\<rparr>"

definition usable :: "Prompt \<Rightarrow> json \<Rightarrow> GeneratedImage option" where
  "usable p img =
     (case img of
        JObj kvs \<Rightarrow> map_option (with_defaults p kvs) (map_of kvs ''encodedImage'')
      | _ \<Rightarrow> None)"

section \<open>Credential resolution\<close>

lemma startswith_prefix_append: "startswith (p @ s) p"
  by (simp add: startswith_def)

lemma init_no_file:
  assumes "\<not> truthy_str (cookie_file c)"
  shows "ImageFX_init files c =
    (if \<not> truthy (authorization_key c) \<and> \<not> truthy_str (cookie c)
     then Inl (ValueError ''Authorization token, Cookie, or Cookie file must be provided.'')
     else (case cookie c of
             None \<Rightarrow> Inr c
           | Some ck \<Rightarrow>
               (if ck \<noteq> [] \<and> length ck < 70 then Inl (ValueError ''Invalid cookie was provided.'')
                else if ck \<noteq> [] \<and> \<not> startswith ck session_prefix
                then Inr (c\<lparr>cookie := Some (session_prefix @ ck)\<rparr>)
                else Inr c)))"
  using assms by (simp add: ImageFX_init_def)

lemma init_file:
  assumes "cookie_file c = Some path" "path \<noteq> []"
  shows "ImageFX_init files c =
    (case files path of
       None \<Rightarrow> Inl (ValueError (''Failed to load cookies from file: Cookie file not found: '' @ path))
     | Some cookies \<Rightarrow>
         (case extract_session_token cookies of
            None \<Rightarrow> Inl (ValueError ''Failed to load cookies from file: No session token found in cookie file'')
          | Some tok \<Rightarrow>
              (if tok = [] then Inl (ValueError ''Failed to load cookies from file: No session token found in cookie file'')
               else if length tok < 70 then Inl (ValueError ''Invalid cookie was provided.'')
               else Inr (c\<lparr>cookie := Some (if startswith tok session_prefix then tok else session_prefix @ tok)\<rparr>))))"
  using assms by (simp add: ImageFX_init_def load_cookies_from_file_def split: option.splits)

lemma init_result_prefixed:
  assumes "ImageFX_init files c = Inr c'" "cookie c' = Some v" "v \<noteq> []"
  shows "startswith v session_prefix"
proof (cases "truthy_str (cookie_file c)")
  case True
  then obtain path where p: "cookie_file c = Some path" "path \<noteq> []"
    by (cases "cookie_file c") auto
  show ?thesis
    using assms init_file [OF p, of files]
    by (auto simp: startswith_prefix_append split: option.splits if_splits)
next
  case False
  show ?thesis
    using assms init_no_file [OF False, of files]
    by (auto simp: startswith_prefix_append split: option.splits if_splits)
qed

lemma init_idempotent:
  assumes "ImageFX_init files c = Inr c'"
  shows "ImageFX_init files c' = Inr c'"
proof (cases "truthy_str (cookie_file c)")
  case True
  then obtain path where p: "cookie_file c = Some path" "path \<noteq> []"
    by (cases "cookie_file c") auto
  from assms init_file [OF p, of files] obtain cookies tok where
    f: "files path = Some cookies" "extract_session_token cookies = Some tok" "tok \<noteq> []"
      "\<not> length tok < 70"
      "c' = c\<lparr>cookie := Some (if startswith tok session_prefix then tok else session_prefix @ tok)\<rparr>"
    by (auto split: option.splits if_splits)
  have p': "cookie_file c' = Some path" using f(5) p(1) by simp
  show ?thesis
    using init_file [OF p' p(2), of files] f by simp
next
  case False
  have nf: "\<not> truthy_str (cookie_file c')"
    using assms init_no_file [OF False, of files] False
    by (auto split: option.splits if_splits)
  show ?thesis
    using assms init_no_file [OF False, of files] init_no_file [OF nf, of files]
    by (auto simp: startswith_prefix_append split: option.splits if_splits)
qed

lemma sample_tokens:
  "typed_token \<noteq> []" "\<not> length typed_token < 70" "\<not> startswith typed_token session_prefix"
  "file_token \<noteq> []" "\<not> length file_token < 70" "\<not> startswith file_token session_prefix"
  by (simp_all add: typed_token_def file_token_def startswith_def session_prefix_def)

text \<open>
  Claim C9. Every cookie value that \<^verbatim>\<open>ImageFX.__init__\<close> accepts, given directly or read
  from the cookie file, comes out with the prefix \<^verbatim>\<open>__Secure-next-auth.session-token=\<close>:
  a value that does not start with it is prefixed once, a value that starts with it is
  kept, and resolving the resolved credentials again returns them unchanged.
\<close>

theorem cookie_prefixed_once:
  "(ImageFX_init files c = Inr c' \<longrightarrow>
      (case cookie c' of None \<Rightarrow> True | Some v \<Rightarrow> v = [] \<or> startswith v session_prefix)
      \<and> ImageFX_init files c' = Inr c')
   \<and> (\<not> truthy_str (cookie_file c) \<and> cookie c = Some raw \<and> raw \<noteq> [] \<and> ImageFX_init files c = Inr c' \<longrightarrow>
        cookie c' = Some (if startswith raw session_prefix then raw else session_prefix @ raw))
   \<and> (cookie_file c = Some path \<and> path \<noteq> [] \<and> files path = Some cookies \<and>
       extract_session_token cookies = Some tok \<and> ImageFX_init files c = Inr c' \<longrightarrow>
        cookie c' = Some (if startswith tok session_prefix then tok else session_prefix @ tok))"
proof (intro conjI impI)
  assume "ImageFX_init files c = Inr c'"
  then show "case cookie c' of None \<Rightarrow> True | Some v \<Rightarrow> v = [] \<or> startswith v session_prefix"
    using init_result_prefixed by (auto split: option.splits)
next
  assume "ImageFX_init files c = Inr c'"
  then show "ImageFX_init files c' = Inr c'" by (rule init_idempotent)
next
  assume a: "\<not> truthy_str (cookie_file c) \<and> cookie c = Some raw \<and> raw \<noteq> [] \<and> ImageFX_init files c = Inr c'"
  then have nf: "\<not> truthy_str (cookie_file c)" by simp
  show "cookie c' = Some (if startswith raw session_prefix then raw else session_prefix @ raw)"
    using a init_no_file [OF nf, of files] by (auto split: if_splits)
next
  assume b: "cookie_file c = Some path \<and> path \<noteq> [] \<and> files path = Some cookies \<and>
       extract_session_token cookies = Some tok \<and> ImageFX_init files c = Inr c'"
  then have p: "cookie_file c = Some path" "path \<noteq> []" by simp_all
  show "cookie c' = Some (if startswith tok session_prefix then tok else session_prefix @ tok)"
    using b init_file [OF p, of files] by (auto split: if_splits)
qed

theorem cookie_prefixed_once_witness:
  "ImageFX_init (\<lambda>path. None) cookie_creds = Inr (cookie_creds\<lparr>cookie := Some (session_prefix @ typed_token)\<rparr>)
   \<and> startswith (session_prefix @ typed_token) session_prefix
   \<and> ImageFX_init (\<lambda>path. None) (cookie_creds\<lparr>cookie := Some (session_prefix @ typed_token)\<rparr>)
       = Inr (cookie_creds\<lparr>cookie := Some (session_prefix @ typed_token)\<rparr>)
   \<and> ImageFX_init sample_files file_creds = Inr (file_creds\<lparr>cookie := Some (session_prefix @ file_token)\<rparr>)
   \<and> ImageFX_init sample_files (file_creds\<lparr>cookie := Some (session_prefix @ file_token)\<rparr>)
       = Inr (file_creds\<lparr>cookie := Some (session_prefix @ file_token)\<rparr>)"
proof -
  have h: "ImageFX_init (\<lambda>path. None) cookie_creds
      = Inr (cookie_creds\<lparr>cookie := Some (session_prefix @ typed_token)\<rparr>)"
    by (simp add: ImageFX_init_def cookie_creds_def sample_tokens)
  have g: "ImageFX_init sample_files file_creds
      = Inr (file_creds\<lparr>cookie := Some (session_prefix @ file_token)\<rparr>)"
    by (simp add: ImageFX_init_def load_cookies_from_file_def file_creds_def sample_files_def
        extract_session_token_def session_keys_def sample_tokens)
  show ?thesis
    using h g
      cookie_prefixed_once [of "\<lambda>path. None" cookie_creds
        "cookie_creds\<lparr>cookie := Some (session_prefix @ typed_token)\<rparr>" typed_token]
      cookie_prefixed_once [of sample_files file_creds
        "file_creds\<lparr>cookie := Some (session_prefix @ file_token)\<rparr>" _ "''cookies.txt''"
        "[(''session-token'', file_token)]" file_token]
    by (simp add: cookie_creds_def file_creds_def sample_files_def sample_tokens)
qed

text \<open>
  Claim C10. When the credentials carry a non-empty cookie and a cookie file, and the file
  yields a non-empty session token, \<^verbatim>\<open>ImageFX.__init__\<close> validates and normalises the
  file's token: the result does not depend on the cookie that was given.
\<close>

theorem cookie_file_takes_precedence:
  assumes "cookie c = Some given" "given \<noteq> []" "cookie_file c = Some path" "path \<noteq> []"
    "files path = Some cookies" "extract_session_token cookies = Some tok" "tok \<noteq> []"
  shows "ImageFX_init files c =
     (if length tok < 70 then Inl (ValueError ''Invalid cookie was provided.'')
      else Inr (c\<lparr>cookie := Some (if startswith tok session_prefix then tok else session_prefix @ tok)\<rparr>))"
  using assms by (simp add: ImageFX_init_def load_cookies_from_file_def)

theorem cookie_file_takes_precedence_witness:
  "cookie file_creds = Some typed_token
   \<and> ImageFX_init sample_files file_creds
     = Inr \<lparr>cookie = Some (session_prefix @ file_token), authorization_key = JNull,
            cookie_file = Some ''cookies.txt''\<rparr>"
  using cookie_file_takes_precedence [of file_creds typed_token "''cookies.txt''" sample_files
      "[(''session-token'', file_token)]" file_token]
  by (simp add: file_creds_def sample_files_def extract_session_token_def session_keys_def sample_tokens)

section \<open>Token exchange\<close>

lemma upper_GET: "upper ''GET'' = ''GET''"
  by code_simp

lemma upper_POST: "upper ''POST'' = ''POST''"
  by code_simp

lemma make_request_GET:
  "make_request up u ''GET'' [(k, v)] b sent =
     ((case up \<lparr>url = u, http_method = ''GET'', headers = AList.update k v default_headers, body = None\<rparr> of
         Inl e \<Rightarrow> Inr (Err (Text e)) | Inr text \<Rightarrow> Inr (Ok text)),
      sent @ [\<lparr>url = u, http_method = ''GET'', headers = AList.update k v default_headers, body = None\<rparr>])"
  by (simp add: make_request_def upper_GET Let_def)

lemma make_request_POST:
  "make_request up u ''POST'' [(k, v)] b sent =
     ((case up \<lparr>url = u, http_method = ''POST'', headers = AList.update k v default_headers, body = b\<rparr> of
         Inl e \<Rightarrow> Inr (Err (Text e)) | Inr text \<Rightarrow> Inr (Ok text)),
      sent @ [\<lparr>url = u, http_method = ''POST'', headers = AList.update k v default_headers, body = b\<rparr>])"
  by (simp add: make_request_def upper_GET upper_POST Let_def)

lemma authorization_header:
  "map_of (AList.update ''Authorization'' v default_headers) ''Authorization'' = Some v"
  by (simp add: update_conv')

lemma get_auth_token_credentials:
  assumes "get_auth_token up loads mutate self = (r, self')"
  shows "credentials self' =
     (case r of
        Inr (Ok tok) \<Rightarrow> if mutate then (credentials self)\<lparr>authorization_key := tok\<rparr> else credentials self
      | _ \<Rightarrow> credentials self)"
  using assms
  by (auto simp: get_auth_token_def make_request_GET
      split: option.splits sum.splits result.splits bool.splits if_splits)

lemma get_auth_token_sent:
  assumes "get_auth_token up loads mutate self = (r, self')" "truthy_str (cookie (credentials self))"
  shows "\<exists>req. requests_made self' = requests_made self @ [req] \<and> url req = session_url"
  using assms
  by (auto simp: get_auth_token_def make_request_GET
      split: option.splits sum.splits result.splits bool.splits if_splits)

lemma check_token_present:
  assumes "truthy (authorization_key (credentials self))"
  shows "check_token up loads self = (Inr (Ok (JBool True)), self)"
  using assms by (simp add: check_token_def)

lemma generate_image_present:
  assumes "truthy (authorization_key (credentials self))"
    and "generate_image up loads p self = (r, p', self')"
  shows "credentials self' = credentials self \<and>
     (\<exists>req. requests_made self' = requests_made self @ [req] \<and> url req = generation_url \<and>
        map_of (headers req) ''Authorization'' = Some (Bearer (authorization_key (credentials self))))"
  using assms
  by (auto simp: generate_image_def check_token_present make_request_POST authorization_header Let_def
      split: sum.splits result.splits)

lemma check_token_exchange:
  assumes "\<not> truthy (authorization_key (credentials self))" "truthy_str (cookie (credentials self))"
  shows "credentials (snd (check_token up loads self)) = credentials (snd (get_auth_token up loads True self))
     \<and> requests_made (snd (check_token up loads self)) = requests_made (snd (get_auth_token up loads True self))"
  using assms by (auto simp: check_token_def split: prod.splits sum.splits result.splits)

lemma generate_image_credentials:
  "credentials (snd (snd (generate_image up loads p self))) = credentials (snd (check_token up loads self))"
  by (auto simp: generate_image_def make_request_POST Let_def split: prod.splits sum.splits result.splits)

lemma generate_image_absent:
  assumes "\<not> truthy (authorization_key (credentials self))" "\<not> truthy_str (cookie (credentials self))"
  shows "generate_image up loads p self =
    (Inr (Err (Text ''Authorization token and Cookie both are missing.'')), p, self)"
  using assms by (simp add: generate_image_def check_token_def)

lemma generate_image_requests:
  "\<exists>rest. requests_made (snd (snd (generate_image up loads p self))) =
     requests_made (snd (check_token up loads self)) @ rest"
  by (auto simp: generate_image_def make_request_POST Let_def split: prod.splits sum.splits result.splits)

text \<open>
  Against claim C3 as it is written: a batch run of two prompts with a cookie and no token
  calls the session endpoint before each of the two generation calls (every prompt gets
  credentials and a client of its own); and on one client of imagefx.py, a second call of
  \<^verbatim>\<open>generate_image\<close> tries the exchange again when the first exchange failed.
\<close>

theorem exchange_before_every_call:
  "map url (requests (generate_clicked sample_env cookie_creds sample_template [project_B] fresh_app))
     = [session_url, generation_url, session_url, generation_url]
   \<and> map url (requests_made (snd (snd (generate_image session_down sample_loads imagen4_prompt
        (snd (snd (generate_image session_down sample_loads imagen4_prompt cookie_client)))))))
     = [session_url, session_url]"
  by code_simp

text \<open>
  Claim C3, amended. \<^verbatim>\<open>get_auth_token\<close> writes the token it returns into the credentials
  when \<^verbatim>\<open>mutate\<close> is set and the exchange succeeds, and changes the credentials in no other
  case. \<^verbatim>\<open>generate_image\<close> checks at the start of every call: with a token present it
  leaves the credentials as they are and sends the single generation request with that
  token; with no token and a cookie it asks the session endpoint first, and the only
  change to the credentials is the exchange's; with neither it sends nothing.
\<close>

theorem token_written_only_by_exchange:
  "credentials (snd (get_auth_token up loads mutate self)) =
     (case fst (get_auth_token up loads mutate self) of
        Inr (Ok tok) \<Rightarrow> if mutate then (credentials self)\<lparr>authorization_key := tok\<rparr> else credentials self
      | _ \<Rightarrow> credentials self)
   \<and> (truthy (authorization_key (credentials self)) \<longrightarrow>
        credentials (snd (snd (generate_image up loads p self))) = credentials self \<and>
        (\<exists>req. requests_made (snd (snd (generate_image up loads p self))) = requests_made self @ [req] \<and>
           url req = generation_url \<and>
           map_of (headers req) ''Authorization'' = Some (Bearer (authorization_key (credentials self)))))
   \<and> (\<not> truthy (authorization_key (credentials self)) \<and> truthy_str (cookie (credentials self)) \<longrightarrow>
        credentials (snd (snd (generate_image up loads p self))) =
          credentials (snd (get_auth_token up loads True self)) \<and>
        (\<exists>req rest. requests_made (snd (snd (generate_image up loads p self))) =
           requests_made self @ req # rest \<and> url req = session_url))
   \<and> (\<not> truthy (authorization_key (credentials self)) \<and> \<not> truthy_str (cookie (credentials self)) \<longrightarrow>
        generate_image up loads p self =
          (Inr (Err (Text ''Authorization token and Cookie both are missing.'')), p, self))"
proof (intro conjI impI)
  show "credentials (snd (get_auth_token up loads mutate self)) =
     (case fst (get_auth_token up loads mutate self) of
        Inr (Ok tok) \<Rightarrow> if mutate then (credentials self)\<lparr>authorization_key := tok\<rparr> else credentials self
      | _ \<Rightarrow> credentials self)"
    using get_auth_token_credentials [of up loads mutate self] by (simp add: prod_eq_iff)
next
  assume k: "truthy (authorization_key (credentials self))"
  from generate_image_present [OF k, of up loads p]
  show "credentials (snd (snd (generate_image up loads p self))) = credentials self"
    by (simp add: prod_eq_iff)
  from generate_image_present [OF k, of up loads p]
  show "\<exists>req. requests_made (snd (snd (generate_image up loads p self))) = requests_made self @ [req] \<and>
           url req = generation_url \<and>
           map_of (headers req) ''Authorization'' = Some (Bearer (authorization_key (credentials self)))"
    by (simp add: prod_eq_iff)
next
  assume a: "\<not> truthy (authorization_key (credentials self)) \<and> truthy_str (cookie (credentials self))"
  then have n: "\<not> truthy (authorization_key (credentials self))" and c: "truthy_str (cookie (credentials self))"
    by simp_all
  show "credentials (snd (snd (generate_image up loads p self))) =
          credentials (snd (get_auth_token up loads True self))"
    using check_token_exchange [OF n c, of up loads] generate_image_credentials [of up loads p self]
    by simp
  obtain req where r: "requests_made (snd (get_auth_token up loads True self)) = requests_made self @ [req]"
      "url req = session_url"
    using get_auth_token_sent [of up loads True self, OF _ c] by (auto simp: prod_eq_iff)
  obtain rest where "requests_made (snd (snd (generate_image up loads p self))) =
     requests_made (snd (check_token up loads self)) @ rest"
    using generate_image_requests by blast
  then have "requests_made (snd (snd (generate_image up loads p self))) = requests_made self @ req # rest"
    using check_token_exchange [OF n c, of up loads] r by simp
  then show "\<exists>req rest. requests_made (snd (snd (generate_image up loads p self))) =
           requests_made self @ req # rest \<and> url req = session_url"
    using r(2) by blast
next
  assume "\<not> truthy (authorization_key (credentials self)) \<and> \<not> truthy_str (cookie (credentials self))"
  then show "generate_image up loads p self =
          (Inr (Err (Text ''Authorization token and Cookie both are missing.'')), p, self)"
    using generate_image_absent by simp
qed

theorem token_written_only_by_exchange_witness:
  "authorization_key (credentials (snd (get_auth_token sample_up sample_loads True cookie_client)))
     = JStr ''ya29.a0''
   \<and> credentials (snd (snd (generate_image sample_up sample_loads imagen4_prompt token_client)))
     = token_creds
   \<and> credentials (snd (snd (generate_image sample_up sample_loads imagen4_prompt cookie_client)))
     = credentials (snd (get_auth_token sample_up sample_loads True cookie_client))
   \<and> generate_image sample_up sample_loads imagen4_prompt
        \<lparr>credentials = \<lparr>cookie = None, authorization_key = JNull, cookie_file = None\<rparr>, requests_made = []\<rparr>
     = (Inr (Err (Text ''Authorization token and Cookie both are missing.'')), imagen4_prompt,
        \<lparr>credentials = \<lparr>cookie = None, authorization_key = JNull, cookie_file = None\<rparr>, requests_made = []\<rparr>)"
proof -
  have f: "fst (get_auth_token sample_up sample_loads True cookie_client) = Inr (Ok (JStr ''ya29.a0''))"
    by code_simp
  have k: "truthy (authorization_key (credentials token_client))"
    by (simp add: token_client_def token_creds_def)
  have n: "\<not> truthy (authorization_key (credentials cookie_client)) \<and>
      truthy_str (cookie (credentials cookie_client))"
    by (simp add: cookie_client_def session_prefix_def)
  show ?thesis
    using f k n
      token_written_only_by_exchange [of sample_up sample_loads True cookie_client imagen4_prompt]
      token_written_only_by_exchange [of sample_up sample_loads True token_client imagen4_prompt]
      token_written_only_by_exchange [of sample_up sample_loads True
        "\<lparr>credentials = \<lparr>cookie = None, authorization_key = JNull, cookie_file = None\<rparr>, requests_made = []\<rparr>"
        imagen4_prompt]
    by (simp add: token_client_def)
qed

section \<open>The batch run\<close>

lemma failure_index_is_successor:
  assumes "process_single_prompt ev creds template (i, t) sent = ((imgs, t', err, Some ed), sent')"
  shows "failed_index ed = i + 1 \<and> failed_prompt ed = t"
  using assms
  by (auto simp: process_single_prompt_def split: sum.splits prod.splits result.splits)

text \<open>
  Claim C1, at a batch of three prompts whose second gets status 500. The run goes on, the
  images of the other two prompts are kept and one failure is recorded with the prompt's
  text and the project's title; but the failure's \<^verbatim>\<open>index\<close> is 3 for the prompt that the
  batch numbers 2 and that the message shown at once calls Prompt 2.
\<close>

theorem one_failure_recorded_index:
  "batch_prompts (project_prompts project_A) 0 = [(1, ''cat''), (2, ''dog''), (3, ''bird'')]
   \<and> failed_prompts (generate_clicked sample_env token_creds sample_template [project_A] fresh_app)
       = [\<lparr>failed_prompt = ''dog'', failed_error = Text status_500, failed_index = 3,
            failed_project_title = Some ''A''\<rparr>]
   \<and> shown (generate_clicked sample_env token_creds sample_template [project_A] fresh_app)
       = [Generated 1 ''A'' 1, GenerationFailed ''A'' 2 (Text status_500), Generated 1 ''A'' 3]
   \<and> map img_prompt (all_generated_images
         (generate_clicked sample_env token_creds sample_template [project_A] fresh_app))
       = [JStr ''cat'', JStr ''bird'']"
  by code_simp

lemma find_Some_holds: "List.find P xs = Some x \<Longrightarrow> P x \<and> x \<in> set xs"
  by (induction xs) (auto split: if_splits)

lemma too_many_found:
  assumes "\<exists>pr \<in> set ps. 50 < length (project_prompts pr)"
  shows "\<exists>i pr. too_many ps = Some (i, pr) \<and> pr \<in> set ps \<and> 50 < length (project_prompts pr)"
proof -
  from assms obtain pr where pr: "pr \<in> set ps" "50 < length (project_prompts pr)" by blast
  then obtain k where k: "k < length ps" "ps ! k = pr" by (auto simp: in_set_conv_nth)
  then have "(k, pr) \<in> set (enumerate 0 ps)" by (simp add: in_set_enumerate_eq)
  with pr(2) have "too_many ps \<noteq> None"
    by (auto simp: too_many_def find_None_iff)
  then obtain i q where f: "too_many ps = Some (i, q)" by (cases "too_many ps") auto
  then have "(i, q) \<in> set (enumerate 0 ps)" "50 < length (project_prompts q)"
    using find_Some_holds [of "\<lambda>ip. 50 < length (project_prompts (snd ip))" "enumerate 0 ps" "(i, q)"]
    by (simp_all add: too_many_def)
  then have "q \<in> set ps" by (auto simp: in_set_enumerate_eq)
  with f \<open>50 < length (project_prompts q)\<close> show ?thesis by blast
qed

text \<open>
  Against claim C6 as it is written: a run whose only project has 51 prompts is refused
  with the credentials message when no credentials are given, and with the cookie file
  message when the cookie file does not exist. Both checks (lines 1090 to 1097) return
  before the prompts are counted (lines 1125 to 1130), so the refusal is not the
  validation error for the prompt count.
\<close>

theorem credentials_refused_before_count:
  "length (project_prompts project_51) = 51
   \<and> shown (generate_clicked sample_env no_creds sample_template [project_51] fresh_app)
       = [CredentialsMissing]
   \<and> ev_files sample_env ''gone.txt'' = None
   \<and> shown (generate_clicked sample_env lost_file_creds sample_template [project_51] fresh_app)
       = [CookieFileNotFound]"
  by code_simp

text \<open>
  Claim C6, amended. When some project has more than 50 prompts, the handler of the
  Generate button returns with one refusal shown and without one request sent: no token
  exchange and no generation call, and no image and no failure recorded. The refusal is
  the validation error that names the first such project when credentials are given and
  the cookie file, if one is named, exists; it is the credentials message when no
  credentials are given, and the cookie file message when the file does not exist.
\<close>

theorem too_many_prompts_no_network:
  assumes "\<exists>pr \<in> set valid_projects. 50 < length (project_prompts pr)"
  shows "requests (generate_clicked ev creds template valid_projects a) = requests a
    \<and> (\<exists>i pr. too_many valid_projects = Some (i, pr) \<and> pr \<in> set valid_projects \<and>
          50 < length (project_prompts pr) \<and>
          shown (generate_clicked ev creds template valid_projects a) = shown a @
            [if \<not> truthy_str (cookie creds) \<and> \<not> truthy (authorization_key creds) \<and>
                \<not> truthy_str (cookie_file creds)
             then CredentialsMissing
             else if truthy_str (cookie_file creds) \<and>
                     (case cookie_file creds of None \<Rightarrow> False | Some path \<Rightarrow> ev_files ev path = None)
             then CookieFileNotFound
             else TooManyPrompts (i + 1) (title pr) (length (project_prompts pr))])
    \<and> (all_generated_images (generate_clicked ev creds template valid_projects a) = []
        \<or> all_generated_images (generate_clicked ev creds template valid_projects a) = all_generated_images a)
    \<and> (failed_prompts (generate_clicked ev creds template valid_projects a) = []
        \<or> failed_prompts (generate_clicked ev creds template valid_projects a) = failed_prompts a)"
proof -
  from too_many_found [OF assms] obtain i pr where
    f: "too_many valid_projects = Some (i, pr)" "pr \<in> set valid_projects"
      "50 < length (project_prompts pr)" by blast
  show ?thesis
    by (simp add: generate_clicked_def f Let_def)
qed

theorem too_many_prompts_no_network_witness:
  "length (project_prompts project_51) = 51
   \<and> requests (generate_clicked sample_env token_creds sample_template [project_A, project_51] fresh_app) = []
   \<and> shown (generate_clicked sample_env token_creds sample_template [project_A, project_51] fresh_app)
       = [TooManyPrompts 2 ''Big'' 51]"
proof -
  have h: "\<exists>pr \<in> set [project_A, project_51]. 50 < length (project_prompts pr)"
    by (simp add: project_51_def)
  have s: "shown (generate_clicked sample_env token_creds sample_template [project_A, project_51] fresh_app)
       = [TooManyPrompts 2 ''Big'' 51]"
    by code_simp
  show ?thesis
    using s too_many_prompts_no_network [OF h, of sample_env token_creds sample_template fresh_app]
    by (simp add: fresh_app_def project_51_def)
qed

section \<open>Request construction\<close>

lemma request_body_st_imagen3:
  assumes "model p = ''IMAGEN_3''"
  shows "modelNameType (request_body_st p) = aspect_ratio p"
    and "aspectRatio (request_body_st p) = ''IMAGE_ASPECT_RATIO_UNSPECIFIED''"
  using assms by (simp_all add: request_body_st_def actual_model_def)

lemma request_body_imagen3:
  assumes "model p = ''IMAGEN_3''"
  shows "modelNameType (request_body p) = ''IMAGEN_3''"
    and "aspectRatio (request_body p) =
      (if aspect_ratio p = [] then ''IMAGE_ASPECT_RATIO_LANDSCAPE'' else aspect_ratio p)"
  using assms by (simp_all add: request_body_def str_or_def)

lemma generate_image_rewrites_model:
  assumes "truthy (authorization_key (credentials self))" "model p = ''IMAGEN_4''"
  shows "fst (snd (generate_image up loads p self)) = p\<lparr>model := ''IMAGEN_3_5''\<rparr>"
  using assms
  by (auto simp: generate_image_def check_token_present Let_def split: prod.splits sum.splits result.splits)

text \<open>
  Claim C2, at the request \<^verbatim>\<open>IMAGEN_3\<close> with the variant \<^verbatim>\<open>IMAGEN_3_PORTRAIT\<close>, on
  imagefx.py (the module the command line uses): the payload sent names the model
  \<^verbatim>\<open>IMAGEN_3\<close> and carries the variant as its aspect ratio. The Streamlit module builds
  what the claim says (\<open>request_body_st_imagen3\<close>).
\<close>

theorem imagen3_payload_of_imagefx_py:
  "model imagen3_prompt = ''IMAGEN_3'' \<and> aspect_ratio imagen3_prompt = ''IMAGEN_3_PORTRAIT''
   \<and> map (map_option modelNameType \<circ> body)
       (requests_made (snd (snd (generate_image sample_up sample_loads imagen3_prompt token_client))))
     = [Some ''IMAGEN_3'']
   \<and> map (map_option aspectRatio \<circ> body)
       (requests_made (snd (snd (generate_image sample_up sample_loads imagen3_prompt token_client))))
     = [Some ''IMAGEN_3_PORTRAIT'']"
  by code_simp

text \<open>
  Against claim C7 as it is written: a count of \<open>- 1\<close> is not positive, and it is sent as
  it is, by both modules.
\<close>

theorem negative_count_is_sent:
  "count (sample_template\<lparr>count := Some (- 1)\<rparr>) = Some (- 1)
   \<and> candidatesCount (request_body (sample_template\<lparr>count := Some (- 1)\<rparr>)) = - 1
   \<and> candidatesCount (request_body_st (sample_template\<lparr>count := Some (- 1)\<rparr>)) = - 1"
  by (simp add: request_body_def request_body_st_def sample_template_def)

text \<open>
  Claim C7, amended. Both request builders send 4 candidates when the count is
  \<^verbatim>\<open>None\<close> or 0 and the given count otherwise (\<^verbatim>\<open>prompt.count or 4\<close>), and the seed 0
  when the seed is \<^verbatim>\<open>None\<close> and the given seed otherwise.
\<close>

theorem count_and_seed_defaults:
  "candidatesCount (request_body p) = (case count p of None \<Rightarrow> 4 | Some n \<Rightarrow> if n = 0 then 4 else n)
   \<and> wire_seed (request_body p) = (case seed p of None \<Rightarrow> 0 | Some n \<Rightarrow> n)
   \<and> candidatesCount (request_body_st p) = (case count p of None \<Rightarrow> 4 | Some n \<Rightarrow> if n = 0 then 4 else n)
   \<and> wire_seed (request_body_st p) = (case seed p of None \<Rightarrow> 0 | Some n \<Rightarrow> n)"
  by (cases "count p"; cases "seed p") (simp_all add: request_body_def request_body_st_def)

theorem count_and_seed_defaults_witness:
  "candidatesCount (request_body (sample_template\<lparr>count := None, seed := Some 7\<rparr>)) = 4
   \<and> wire_seed (request_body (sample_template\<lparr>count := None, seed := Some 7\<rparr>)) = 7
   \<and> candidatesCount (request_body_st (sample_template\<lparr>count := None, seed := Some 7\<rparr>)) = 4
   \<and> wire_seed (request_body_st (sample_template\<lparr>count := None, seed := Some 7\<rparr>)) = 7"
  using count_and_seed_defaults [of "sample_template\<lparr>count := None, seed := Some 7\<rparr>"]
  by simp

text \<open>
  Claim C8, at a request for \<^verbatim>\<open>IMAGEN_4\<close> on imagefx.py: after \<^verbatim>\<open>generate_image\<close> the
  caller's prompt object names the model \<^verbatim>\<open>IMAGEN_3_5\<close> (line 210 assigns to
  \<^verbatim>\<open>prompt.model\<close>). The Streamlit module keeps the rewritten name in a local variable.
\<close>

theorem prompt_model_rewritten_in_imagefx_py:
  "model imagen4_prompt = ''IMAGEN_4''
   \<and> fst (snd (generate_image sample_up sample_loads imagen4_prompt token_client))
     = imagen4_prompt\<lparr>model := ''IMAGEN_3_5''\<rparr>"
  by code_simp

section \<open>Decoding the response\<close>

lemma image_of_st_dict:
  "image_of_st p (JObj kvs) = Inr (map_option (with_defaults p kvs) (map_of kvs ''encodedImage''))"
  by (cases "map_of kvs ''encodedImage''")
    (simp_all add: image_of_st_def andthen_def with_defaults_def split: option.splits)

lemma usable_dict: "usable p (JObj kvs) = map_option (with_defaults p kvs) (map_of kvs ''encodedImage'')"
  by (simp add: usable_def)

lemma images_of_st_dicts:
  "list_all isinstance_dict imgs \<Longrightarrow> images_of_st p imgs = Inr (List.map_filter (usable p) imgs)"
proof (induction imgs)
  case Nil
  show ?case by simp
next
  case (Cons img imgs)
  then obtain kvs where d: "img = JObj kvs" by (cases img) auto
  from Cons have ih: "images_of_st p imgs = Inr (List.map_filter (usable p) imgs)" by simp
  show ?case
    by (simp add: d ih image_of_st_dict andthen_def usable_dict split: option.splits)
qed

lemma map_filter_empty: "(List.map_filter f xs = []) = list_all (\<lambda>x. f x = None) xs"
  by (induction xs) (auto split: option.splits)

lemma decode_response_st_nonempty: "decode_response_st loads p text \<noteq> Ok []"
  by (auto simp: decode_response_st_def andthen_def
      split: option.splits sum.splits json.splits if_splits)

lemma decode_response_st_dicts:
  assumes "loads text = Some parsed" "getitem parsed ''imagePanels'' = Inr panels"
    "getitem0 panels = Inr panel" "dict_get panel ''generatedImages'' (JArr []) = Inr (JArr imgs)"
    "list_all isinstance_dict imgs"
  shows "decode_response_st loads p text =
        (if imgs = [] then Err (Text ''No images generated'')
         else if list_all (\<lambda>img. usable p img = None) imgs
         then Err (Text ''Failed to parse any images from response'')
         else Ok (List.map_filter (usable p) imgs))"
proof -
  from assms(2) obtain kvs where pk: "parsed = JObj kvs" "map_of kvs ''imagePanels'' = Some panels"
    by (cases parsed) (auto split: option.splits)
  have c: "contains ''imagePanels'' parsed = Inr True" using pk by simp
  have t: "truthy panels" using assms(3) by (cases panels rule: getitem0.cases) auto
  show ?thesis
    using assms c t
    by (simp add: decode_response_st_def andthen_def images_of_st_dicts map_filter_empty)
qed

lemma empty_panels_st:
  assumes "loads text = Some (JObj kvs)" "map_of kvs ''imagePanels'' = Some (JArr [])"
  shows "decode_response_st loads p text = Err (Text ''No image panels in response'')"
  using assms by (simp add: decode_response_st_def andthen_def)

lemma empty_panels_raise:
  assumes "loads text = Some (JObj kvs)" "map_of kvs ''imagePanels'' = Some (JArr [])"
  shows "decode_response loads text = Inl IndexError"
  using assms by (simp add: decode_response_def andthen_def)

text \<open>
  Against claim C4 as it is written: in imagefx.py an entry that has every field but
  \<^verbatim>\<open>seed\<close> fails the whole response (the \<^verbatim>\<open>KeyError\<close> is caught and reported).
\<close>

theorem strict_fields_in_imagefx_py:
  "sample_loads no_seed_body =
     Some (JObj [(''imagePanels'', JArr [JObj [(''generatedImages'',
        JArr [JObj [(''encodedImage'', JStr ''aGk=''), (''mediaGenerationId'', JStr ''m1''),
                    (''isMaskEditedImage'', JBool False), (''prompt'', JStr ''cat''),
                    (''modelNameType'', JStr ''IMAGEN_3_5''), (''workflowId'', JStr ''w1''),
                    (''fingerprintLogRecordId'', JStr ''f1'')]])]])])
   \<and> decode_response sample_loads no_seed_body
       = Inr (Err (Text (''Failed to parse JSON: '' @ no_seed_body)))"
  by code_simp

text \<open>
  Claim C4, amended to the Streamlit module. An entry that is an object with
  \<^verbatim>\<open>encodedImage\<close> becomes an image whose missing optional fields hold their defaults, and
  an object without it is skipped. No response decodes to a success with no image. For a
  response whose first panel lists objects, the result is the images of the entries that
  have \<^verbatim>\<open>encodedImage\<close>, and an error when there is none: \<^verbatim>\<open>No images generated\<close> for
  an empty list, \<^verbatim>\<open>Failed to parse any images from response\<close> otherwise.
\<close>

theorem missing_fields_defaulted_st:
  "image_of_st p (JObj kvs) = Inr (map_option (with_defaults p kvs) (map_of kvs ''encodedImage''))
   \<and> decode_response_st loads p text \<noteq> Ok []
   \<and> (loads text = Some parsed \<and> getitem parsed ''imagePanels'' = Inr panels \<and>
       getitem0 panels = Inr panel \<and>
       dict_get panel ''generatedImages'' (JArr []) = Inr (JArr imgs) \<and>
       list_all isinstance_dict imgs \<longrightarrow>
       decode_response_st loads p text =
        (if imgs = [] then Err (Text ''No images generated'')
         else if list_all (\<lambda>img. usable p img = None) imgs
         then Err (Text ''Failed to parse any images from response'')
         else Ok (List.map_filter (usable p) imgs)))"
  using image_of_st_dict decode_response_st_nonempty decode_response_st_dicts by blast

theorem missing_fields_defaulted_st_witness:
  "decode_response_st sample_loads imagen4_prompt no_seed_body =
     Ok [\<lparr>encoded_image = JStr ''aGk='', img_seed = JInt 0, media_generation_id = JStr ''m1'',
          is_mask_edited_image = JBool False, img_prompt = JStr ''cat'',
          model_name_type = JStr ''IMAGEN_3_5'', workflow_id = JStr ''w1'',
          fingerprint_log_record_id = JStr ''f1'', project_title = None\<rparr>]
   \<and> decode_response_st sample_loads imagen4_prompt no_image_body =
     Err (Text ''Failed to parse any images from response'')"
proof -
  have a: "sample_loads no_seed_body =
     Some (JObj [(''imagePanels'', JArr [JObj [(''generatedImages'',
        JArr [JObj [(''encodedImage'', JStr ''aGk=''), (''mediaGenerationId'', JStr ''m1''),
                    (''isMaskEditedImage'', JBool False), (''prompt'', JStr ''cat''),
                    (''modelNameType'', JStr ''IMAGEN_3_5''), (''workflowId'', JStr ''w1''),
                    (''fingerprintLogRecordId'', JStr ''f1'')]])]])])"
    by code_simp
  have b: "sample_loads no_image_body =
     Some (JObj [(''imagePanels'', JArr [JObj [(''generatedImages'', JArr [JObj [(''seed'', JInt 7)]])]])])"
    by code_simp
  show ?thesis
    using a b
      missing_fields_defaulted_st [of imagen4_prompt "[]" sample_loads no_seed_body
        "JObj [(''imagePanels'', JArr [JObj [(''generatedImages'',
           JArr [JObj [(''encodedImage'', JStr ''aGk=''), (''mediaGenerationId'', JStr ''m1''),
                    (''isMaskEditedImage'', JBool False), (''prompt'', JStr ''cat''),
                    (''modelNameType'', JStr ''IMAGEN_3_5''), (''workflowId'', JStr ''w1''),
                    (''fingerprintLogRecordId'', JStr ''f1'')]])]])]"
        "JArr [JObj [(''generatedImages'',
           JArr [JObj [(''encodedImage'', JStr ''aGk=''), (''mediaGenerationId'', JStr ''m1''),
                    (''isMaskEditedImage'', JBool False), (''prompt'', JStr ''cat''),
                    (''modelNameType'', JStr ''IMAGEN_3_5''), (''workflowId'', JStr ''w1''),
                    (''fingerprintLogRecordId'', JStr ''f1'')]])]]"
        "JObj [(''generatedImages'',
           JArr [JObj [(''encodedImage'', JStr ''aGk=''), (''mediaGenerationId'', JStr ''m1''),
                    (''isMaskEditedImage'', JBool False), (''prompt'', JStr ''cat''),
                    (''modelNameType'', JStr ''IMAGEN_3_5''), (''workflowId'', JStr ''w1''),
                    (''fingerprintLogRecordId'', JStr ''f1'')]])]"
        "[JObj [(''encodedImage'', JStr ''aGk=''), (''mediaGenerationId'', JStr ''m1''),
                    (''isMaskEditedImage'', JBool False), (''prompt'', JStr ''cat''),
                    (''modelNameType'', JStr ''IMAGEN_3_5''), (''workflowId'', JStr ''w1''),
                    (''fingerprintLogRecordId'', JStr ''f1'')]]"]
      missing_fields_defaulted_st [of imagen4_prompt "[]" sample_loads no_image_body
        "JObj [(''imagePanels'', JArr [JObj [(''generatedImages'', JArr [JObj [(''seed'', JInt 7)]])]])]"
        "JArr [JObj [(''generatedImages'', JArr [JObj [(''seed'', JInt 7)]])]]"
        "JObj [(''generatedImages'', JArr [JObj [(''seed'', JInt 7)]])]"
        "[JObj [(''seed'', JInt 7)]]"]
    by (simp add: usable_dict with_defaults_def imagen4_prompt_def actual_model_def)
qed

text \<open>
  Claim C5, at a response whose \<^verbatim>\<open>imagePanels\<close> is the empty list, on imagefx.py:
  \<^verbatim>\<open>parsed_res["imagePanels"][0]\<close> raises \<^verbatim>\<open>IndexError\<close>, which the \<^verbatim>\<open>except\<close> clause does
  not catch, so \<^verbatim>\<open>generate_image\<close> raises where it documents an \<^verbatim>\<open>Err\<close> result. The
  Streamlit module returns the error (\<open>empty_panels_st\<close>).
\<close>

theorem empty_panels_raise_in_imagefx_py:
  "sample_loads no_panels_body = Some (JObj [(''imagePanels'', JArr [])])
   \<and> fst (generate_image no_panels_up sample_loads imagen4_prompt token_client) = Inl IndexError"
  by code_simp

end
